theory Spec2Isabelle
  imports Main
begin

section \<open>Values, validation issues and thrown errors\<close>

text \<open>
  The values a caller can hand to the library. A form field's value (\<open>e.target.value\<close>, an
  entry of \<open>FormData\<close>) is always a string; the \<open>data\<close> argument of \<open>executeAction\<close> is a
  \<open>Record<string, any>\<close> and may hold other primitives as well.
\<close>

datatype jsval = JString string | JBoolean bool | JNull | JUndefined

text \<open>JavaScript's \<open>String(value)\<close> on these primitives.\<close>

fun toString :: "jsval \<Rightarrow> string" where
  "toString (JString s) = s"
| "toString (JBoolean b) = (if b then ''true'' else ''false'')"
| "toString JNull = ''null''"
| "toString JUndefined = ''undefined''"

text \<open>What \<open>typeof\<close> (with \<open>null\<close> told apart) names a value, as validation messages do.\<close>

fun typeName :: "jsval \<Rightarrow> string" where
  "typeName (JString s) = ''string''"
| "typeName (JBoolean b) = ''boolean''"
| "typeName JNull = ''null''"
| "typeName JUndefined = ''undefined''"

text \<open>
  One issue of a \<open>ZodError\<close>. The path holds property names; a numeric segment is held by its
  decimal rendering, which is what \<open>toString()\<close> gives in \<open>issue.path[0]?.toString()\<close>.
\<close>

record issue =
  path :: "string list"
  message :: string
  code :: string

text \<open>
  What a \<open>throw\<close> (or a rejected promise) carries: a \<open>ZodError\<close> with its issues, a plain
  \<open>Error\<close> with its message, or any other thrown value. The test \<open>error instanceof z.ZodError\<close>
  is the case distinction on the first constructor.
\<close>

datatype js_error = ZodError "issue list" | Error string | Thrown jsval

fun instanceof_ZodError :: "js_error \<Rightarrow> bool" where
  "instanceof_ZodError (ZodError issues) = True"
| "instanceof_ZodError _ = False"

fun issues_of :: "js_error \<Rightarrow> issue list" where
  "issues_of (ZodError issues) = issues"
| "issues_of _ = []"

text \<open>\<open>FormData\<close>: an ordered collection of name/value entries, as a form submits them.\<close>

type_synonym FormData = "(string \<times> string) list"

text \<open>
  \<open>Object.fromEntries(formData.entries())\<close>: the entries are stored in order, so a later entry
  overwrites an earlier one of the same name.
\<close>

definition fromEntries :: "FormData \<Rightarrow> (string \<rightharpoonup> jsval)" where
  "fromEntries entries = foldl (\<lambda>obj (k, v). obj(k \<mapsto> JString v)) Map.empty entries"

text \<open>
  Modelled from the spec: the schema validation engine (zod) is an external collaborator,
  consumed as the capability \<open>validate(schema, data) -> Ok(parsedValue) | Err(issues)\<close>.
  An object schema is its \<open>shape\<close> (field name to sub-validator, each with its own \<open>parse\<close>)
  and its whole-object \<open>parse\<close>; a \<open>parse\<close> returns the parsed value or throws.
\<close>

record 'o ZodObject =
  shape :: "string \<rightharpoonup> (jsval \<Rightarrow> js_error + jsval)"
  parse :: "(string \<rightharpoonup> jsval) \<Rightarrow> js_error + 'o"

text \<open>\<open>Array.prototype.join(separator)\<close> on an array of strings.\<close>

fun join :: "string \<Rightarrow> string list \<Rightarrow> string" where
  "join sep [] = []"
| "join sep [x] = x"
| "join sep (x # y # ys) = x @ sep @ join sep (y # ys)"

section \<open>createServerAction\<close>

text \<open>
  The \<open>catch\<close> block of the action: a \<open>ZodError\<close> is replaced by a new \<open>Error\<close> whose message
  is \<open>error.issues.map((issue) => issue.message).join(", ")\<close>; anything else is rethrown as
  it is.
\<close>

fun rethrow :: "js_error \<Rightarrow> js_error" where
  "rethrow (ZodError issues) = Error (join '', '' (map message issues))"
| "rethrow error = error"

text \<open>
  The action built from a schema and a handler. The result is the list of arguments the handler
  was invoked with (empty when it was not invoked) and the outcome of the returned promise:
  \<open>Inl\<close> a rejection, \<open>Inr\<close> the fulfilled value. Both \<open>schema.parse\<close> and the handler run inside
  the \<open>try\<close>, so the \<open>catch\<close> sees what either of them throws.
\<close>

definition createServerAction ::
  "'o ZodObject \<Rightarrow> ('o \<Rightarrow> js_error + 'o) \<Rightarrow> 'o \<Rightarrow> FormData \<Rightarrow> 'o list \<times> (js_error + 'o)" where
  "createServerAction schema handler prevState formData =
     (let data = fromEntries formData in
      case parse schema data of
        Inl error \<Rightarrow> ([], Inl (rethrow error))
      | Inr parsedData \<Rightarrow>
          ([parsedData],
           case handler parsedData of
             Inl error \<Rightarrow> Inl (rethrow error)
           | Inr result \<Rightarrow> Inr result))"

section \<open>The schema of the test suite\<close>

text \<open>
  \<open>z.object({ name: z.string().min(1, "Name is required") })\<close>, the schema of the hook's tests:
  the field validator accepts a string of length at least one and reports any other value
  as of the wrong type, and the object validator reads a missing field as \<open>undefined\<close> and
  reports the field's issues under the path \<open>name\<close>.
\<close>

definition name_field :: "jsval \<Rightarrow> js_error + jsval" where
  "name_field v =
     (case v of
        JString s \<Rightarrow>
          if 1 \<le> length s then Inr v
          else Inl (ZodError [\<lparr>path = [], message = ''Name is required'', code = ''too_small''\<rparr>])
      | _ \<Rightarrow> Inl (ZodError [\<lparr>path = [],
                             message = ''Invalid input: expected string, received '' @ typeName v,
                             code = ''invalid_type''\<rparr>]))"

definition under_key :: "string \<Rightarrow> issue \<Rightarrow> issue" where
  "under_key k i = i\<lparr>path := k # path i\<rparr>"

definition nameSchema :: "((string \<times> jsval) list) ZodObject" where
  "nameSchema =
     \<lparr>shape = [''name'' \<mapsto> name_field],
      parse = (\<lambda>data.
        case name_field (case data ''name'' of None \<Rightarrow> JUndefined | Some v \<Rightarrow> v) of
          Inr v \<Rightarrow> Inr [(''name'', v)]
        | Inl (ZodError issues) \<Rightarrow> Inl (ZodError (map (under_key ''name'') issues))
        | Inl error \<Rightarrow> Inl error)\<rparr>"

section \<open>useActionize: the state cells and the configuration\<close>

record FieldError =
  fe_message :: string
  fe_type :: string

text \<open>
  The hook's input. Both callbacks are optional, and every invocation is recorded in the state's
  \<open>effects\<close>. \<open>onSuccess\<close>, when provided, is the callback itself: called with the result it
  returns normally (\<open>None\<close>) or throws (\<open>Some\<close> what it threw); the hook calls it inside a \<open>try\<close>,
  so what it throws is caught. \<open>onError\<close> is the flag that the callback was provided: the call
  is the last statement of every path that makes it and nothing in the hook catches what it
  throws, so no state cell depends on how it returns. The action's promise is its outcome:
  \<open>Inl\<close> a rejection, \<open>Inr\<close> the fulfilled value.
\<close>

record 'o ActionizeInput =
  schema :: "'o ZodObject"
  action :: "'o \<Rightarrow> FormData \<Rightarrow> js_error + 'o"
  initialData :: 'o
  onSuccess :: "('o \<Rightarrow> js_error option) option"
  onError :: bool

datatype 'o effect = ActionCalled 'o FormData | OnSuccess 'o | OnError js_error

text \<open>
  The state cells of one hook instance: \<open>state\<close> (of \<open>useActionState\<close>; the hook never
  dispatches to it, so it stays the initial data), \<open>formData\<close>, \<open>errors\<close>, \<open>touchedFields\<close>
  (the three \<open>useState\<close> cells) and \<open>isPending\<close> (of \<open>useTransition\<close>). \<open>inflight\<close> holds the
  outcomes of the actions that were started and have not settled yet, and \<open>effects\<close> is the
  record of the calls made to the action and to the callbacks, in order.
\<close>

record 'o hook =
  state :: 'o
  formData :: "string \<rightharpoonup> string"
  errors :: "string \<rightharpoonup> FieldError"
  touchedFields :: "string set"
  isPending :: bool
  inflight :: "(js_error + 'o) list"
  effects :: "'o effect list"

definition init :: "'o ActionizeInput \<Rightarrow> 'o hook" where
  "init cfg =
     \<lparr>state = initialData cfg, formData = Map.empty, errors = Map.empty, touchedFields = {},
      isPending = False, inflight = [], effects = []\<rparr>"

section \<open>Single-field validation and the field bindings\<close>

text \<open>
  \<open>x || fallback\<close> for a string that may be absent (\<open>error.issues[0]?.message\<close>): the
  fallback is taken when the string is absent or empty.
\<close>

fun or_else :: "string option \<Rightarrow> string \<Rightarrow> string" where
  "or_else None fallback = fallback"
| "or_else (Some s) fallback = (if s = [] then fallback else s)"

fun first_issue :: "issue list \<Rightarrow> issue option" where
  "first_issue [] = None"
| "first_issue (i # _) = Some i"

text \<open>
  \<open>validateField(name, value)\<close>. Without a sub-validator for the name nothing happens. With
  one, a successful \<open>parse\<close> deletes the field's entry; a \<open>ZodError\<close> is caught and stores the
  first issue's message and code under the name, each with its fallback; any other thrown
  error is caught and dropped. Only the \<open>errors\<close> cell is written.
\<close>

definition validateField :: "'o ActionizeInput \<Rightarrow> string \<Rightarrow> jsval \<Rightarrow> 'o hook \<Rightarrow> 'o hook" where
  "validateField cfg name val s =
     (case shape (schema cfg) name of
        None \<Rightarrow> s
      | Some fieldSchema \<Rightarrow>
          (case fieldSchema val of
             Inr parsed \<Rightarrow> s\<lparr>errors := (errors s)(name := None)\<rparr>
           | Inl (ZodError issues) \<Rightarrow>
               s\<lparr>errors := (errors s)(name \<mapsto>
                  \<lparr>fe_message = or_else (map_option message (first_issue issues)) ''Invalid value'',
                   fe_type = or_else (map_option code (first_issue issues)) ''invalid''\<rparr>)\<rparr>
           | Inl error \<Rightarrow> s))"

definition onChange :: "'o ActionizeInput \<Rightarrow> string \<Rightarrow> string \<Rightarrow> 'o hook \<Rightarrow> 'o hook" where
  "onChange cfg name val s =
     (let s' = s\<lparr>formData := (formData s)(name \<mapsto> val)\<rparr> in
      if name \<in> touchedFields s then validateField cfg name (JString val) s' else s')"

definition onBlur :: "'o ActionizeInput \<Rightarrow> string \<Rightarrow> string \<Rightarrow> 'o hook \<Rightarrow> 'o hook" where
  "onBlur cfg name val s =
     validateField cfg name (JString val) (s\<lparr>touchedFields := insert name (touchedFields s)\<rparr>)"

text \<open>The \<open>value\<close> of a field binding: \<open>formData[name] || ""\<close>.\<close>

definition register_value :: "'o hook \<Rightarrow> string \<Rightarrow> string" where
  "register_value s name = or_else (formData s name) []"

definition getFieldError :: "'o hook \<Rightarrow> string \<Rightarrow> FieldError option" where
  "getFieldError s name = errors s name"

text \<open>The two derived values of a render: neither is a state cell.\<close>

definition isValid :: "'o hook \<Rightarrow> bool" where
  "isValid s = (dom (errors s) = {})"

definition buttonDisabled :: "'o hook \<Rightarrow> bool" where
  "buttonDisabled s = (isPending s \<or> \<not> isValid s)"

section \<open>Submission\<close>

text \<open>
  Modelled from the spec: the host framework's transition primitive, "submit a unit of async
  work; observe a boolean busy flag that becomes true at submission start and false at settle;
  no cancellation". \<open>startTransition\<close> runs the callback up to its \<open>await\<close>: the action is
  invoked with the current \<open>state\<close> and the form data, and its outcome waits in \<open>inflight\<close>.
  \<open>settle\<close> resumes the callback of the \<open>k\<close>-th waiting action, and the flag drops. The rest
  of the callback is the hook's own code: inside one \<open>try\<close>, a fulfilled value goes to
  \<open>onSuccess\<close>; the \<open>catch\<close> hands a rejection of the action, and likewise what \<open>onSuccess\<close>
  threw, to \<open>onError\<close>; each callback is called only if provided.
\<close>

definition startTransition :: "'o ActionizeInput \<Rightarrow> FormData \<Rightarrow> 'o hook \<Rightarrow> 'o hook" where
  "startTransition cfg formDataObj s =
     s\<lparr>isPending := True,
       inflight := inflight s @ [action cfg (state s) formDataObj],
       effects := effects s @ [ActionCalled (state s) formDataObj]\<rparr>"

definition caught :: "'o ActionizeInput \<Rightarrow> js_error \<Rightarrow> 'o effect list" where
  "caught cfg error = (if onError cfg then [OnError error] else [])"

definition continuation :: "'o ActionizeInput \<Rightarrow> js_error + 'o \<Rightarrow> 'o effect list" where
  "continuation cfg outcome =
     (case outcome of
        Inr result \<Rightarrow>
          (case onSuccess cfg of
             None \<Rightarrow> []
           | Some callback \<Rightarrow>
               OnSuccess result #
                 (case callback result of None \<Rightarrow> [] | Some thrown \<Rightarrow> caught cfg thrown))
      | Inl error \<Rightarrow> caught cfg error)"

definition settle :: "'o ActionizeInput \<Rightarrow> nat \<Rightarrow> 'o hook \<Rightarrow> 'o hook" where
  "settle cfg k s =
     (if k < length (inflight s)
      then s\<lparr>isPending := False,
             inflight := take k (inflight s) @ drop (Suc k) (inflight s),
             effects := effects s @ continuation cfg (inflight s ! k)\<rparr>
      else s)"

text \<open>
  \<open>issue.path[0]?.toString()\<close> followed by \<open>if (fieldName)\<close>: an issue with an empty path or an
  empty first segment names no field.
\<close>

definition fieldName :: "issue \<Rightarrow> string option" where
  "fieldName i = (case path i of [] \<Rightarrow> None | p # _ \<Rightarrow> if p = [] then None else Some p)"

text \<open>The \<open>forEach\<close> over the issues that fills \<open>fieldErrors\<close>, starting from the empty record.\<close>

definition fieldErrors :: "issue list \<Rightarrow> (string \<rightharpoonup> FieldError)" where
  "fieldErrors issues =
     foldl (\<lambda>acc i. case fieldName i of
                       None \<Rightarrow> acc
                     | Some f \<Rightarrow> acc(f \<mapsto> \<lparr>fe_message = message i, fe_type = code i\<rparr>))
       Map.empty issues"

definition enhancedFormAction :: "'o ActionizeInput \<Rightarrow> FormData \<Rightarrow> 'o hook \<Rightarrow> 'o hook" where
  "enhancedFormAction cfg formDataObj s =
     (case parse (schema cfg) (fromEntries formDataObj) of
        Inr parsed \<Rightarrow> startTransition cfg formDataObj (s\<lparr>errors := Map.empty\<rparr>)
      | Inl (ZodError issues) \<Rightarrow> s\<lparr>errors := fieldErrors issues\<rparr>
      | Inl error \<Rightarrow> s)"

text \<open>
  \<open>executeAction(data?)\<close>. The entries of \<open>data\<close> are appended to a fresh \<open>FormData\<close>, each
  value through \<open>String\<close>; what is validated is \<open>dataToSubmit = data || formData\<close>: the
  \<open>data\<close> object itself when it is given, and the empty \<open>FormData\<close> otherwise, which an object
  schema reads as an object without fields. The action receives the \<open>FormData\<close>.
\<close>

definition synthetic :: "(string \<times> jsval) list option \<Rightarrow> FormData" where
  "synthetic data =
     (case data of None \<Rightarrow> [] | Some d \<Rightarrow> map (\<lambda>(key, val). (key, toString val)) d)"

definition dataToSubmit :: "(string \<times> jsval) list option \<Rightarrow> (string \<rightharpoonup> jsval)" where
  "dataToSubmit data = (case data of None \<Rightarrow> Map.empty | Some d \<Rightarrow> map_of d)"

definition executeAction ::
  "'o ActionizeInput \<Rightarrow> (string \<times> jsval) list option \<Rightarrow> 'o hook \<Rightarrow> 'o hook" where
  "executeAction cfg data s =
     (case parse (schema cfg) (dataToSubmit data) of
        Inr parsed \<Rightarrow> startTransition cfg (synthetic data) s
      | Inl error \<Rightarrow>
          if instanceof_ZodError error \<and> onError cfg
          then s\<lparr>effects := effects s @
                 [OnError (Error (join '', '' (map message (issues_of error))))]\<rparr>
          else s)"

section \<open>Runs of one hook instance\<close>

datatype event =
    Change string string
  | Blur string string
  | FormAction FormData
  | ExecuteAction "(string \<times> jsval) list option"
  | Settle nat

fun step :: "'o ActionizeInput \<Rightarrow> 'o hook \<Rightarrow> event \<Rightarrow> 'o hook" where
  "step cfg s (Change name val) = onChange cfg name val s"
| "step cfg s (Blur name val) = onBlur cfg name val s"
| "step cfg s (FormAction fd) = enhancedFormAction cfg fd s"
| "step cfg s (ExecuteAction data) = executeAction cfg data s"
| "step cfg s (Settle k) = settle cfg k s"

definition run :: "'o ActionizeInput \<Rightarrow> event list \<Rightarrow> 'o hook" where
  "run cfg evs = foldl (step cfg) (init cfg) evs"

fun is_field_event :: "event \<Rightarrow> bool" where
  "is_field_event (Change name val) = True"
| "is_field_event (Blur name val) = True"
| "is_field_event _ = False"

fun is_Change :: "event \<Rightarrow> bool" where
  "is_Change (Change name val) = True"
| "is_Change _ = False"

section \<open>createActionConfig and the configurations used as examples\<close>

text \<open>
  \<open>createActionConfig\<close> bundles its three arguments as they are; the hook is then called with
  \<open>{...config, onSuccess, onError}\<close>, the callbacks being absent from the bundle itself.
\<close>

definition createActionConfig ::
  "'o ZodObject \<Rightarrow> ('o \<Rightarrow> FormData \<Rightarrow> js_error + 'o) \<Rightarrow> 'o \<Rightarrow> 'o ActionizeInput" where
  "createActionConfig sch act initial =
     \<lparr>schema = sch, action = act, initialData = initial, onSuccess = None, onError = False\<rparr>"

text \<open>The promise a caller of the built action sees.\<close>

definition serverAction ::
  "'o ZodObject \<Rightarrow> ('o \<Rightarrow> js_error + 'o) \<Rightarrow> 'o \<Rightarrow> FormData \<Rightarrow> js_error + 'o" where
  "serverAction sch handler prevState fd = snd (createServerAction sch handler prevState fd)"

text \<open>Two \<open>onSuccess\<close> callbacks: one that returns normally, one that throws.\<close>

definition returns_normally :: "'o \<Rightarrow> js_error option" where
  "returns_normally result = None"

definition throwing_callback :: "'o \<Rightarrow> js_error option" where
  "throwing_callback result = Some (Error ''Callback failed'')"

text \<open>
  The configuration of the test suite and of the README: the name schema, the action built from
  it and a handler, the initial data \<open>{ name: "" }\<close>, and both callbacks provided.
\<close>

definition nameConfig ::
  "((string \<times> jsval) list \<Rightarrow> js_error + (string \<times> jsval) list) \<Rightarrow>
   ((string \<times> jsval) list) ActionizeInput" where
  "nameConfig handler =
     (createActionConfig nameSchema (serverAction nameSchema handler) [(''name'', JString [])])
       \<lparr>onSuccess := Some returns_normally, onError := True\<rparr>"

text \<open>Two handlers that reject: one with a plain \<open>Error\<close>, one with a \<open>ZodError\<close> of its own
  (a handler that parses what it loaded with another schema).\<close>

definition unavailable_handler :: "(string \<times> jsval) list \<Rightarrow> js_error + (string \<times> jsval) list" where
  "unavailable_handler parsedData = Inl (Error ''Service unavailable'')"

definition reparsing_handler :: "(string \<times> jsval) list \<Rightarrow> js_error + (string \<times> jsval) list" where
  "reparsing_handler parsedData =
     Inl (ZodError [\<lparr>path = [''id''], message = ''Stored record is malformed'', code = ''invalid_type''\<rparr>])"

text \<open>\<open>z.object({ agree: z.boolean() })\<close>: a field that is not a string.\<close>

definition agree_field :: "jsval \<Rightarrow> js_error + jsval" where
  "agree_field v =
     (case v of
        JBoolean b \<Rightarrow> Inr v
      | _ \<Rightarrow> Inl (ZodError [\<lparr>path = [],
                             message = ''Invalid input: expected boolean, received '' @ typeName v,
                             code = ''invalid_type''\<rparr>]))"

definition agreeSchema :: "((string \<times> jsval) list) ZodObject" where
  "agreeSchema =
     \<lparr>shape = [''agree'' \<mapsto> agree_field],
      parse = (\<lambda>data.
        case agree_field (case data ''agree'' of None \<Rightarrow> JUndefined | Some v \<Rightarrow> v) of
          Inr v \<Rightarrow> Inr [(''agree'', v)]
        | Inl (ZodError issues) \<Rightarrow> Inl (ZodError (map (under_key ''agree'') issues))
        | Inl error \<Rightarrow> Inl error)\<rparr>"

definition agreeConfig :: "((string \<times> jsval) list) ActionizeInput" where
  "agreeConfig =
     (createActionConfig agreeSchema (serverAction agreeSchema Inr) [(''agree'', JBoolean False)])
       \<lparr>onSuccess := Some returns_normally, onError := True\<rparr>"

text \<open>\<open>z.object({ name: z.string().min(1, { message: "" }) })\<close>: the name schema with an empty
  message.\<close>

definition blank_field :: "jsval \<Rightarrow> js_error + jsval" where
  "blank_field v =
     (case v of
        JString s \<Rightarrow>
          if 1 \<le> length s then Inr v
          else Inl (ZodError [\<lparr>path = [], message = [], code = ''too_small''\<rparr>])
      | _ \<Rightarrow> Inl (ZodError [\<lparr>path = [],
                             message = ''Invalid input: expected string, received '' @ typeName v,
                             code = ''invalid_type''\<rparr>]))"

definition blankSchema :: "((string \<times> jsval) list) ZodObject" where
  "blankSchema =
     \<lparr>shape = [''name'' \<mapsto> blank_field],
      parse = (\<lambda>data.
        case blank_field (case data ''name'' of None \<Rightarrow> JUndefined | Some v \<Rightarrow> v) of
          Inr v \<Rightarrow> Inr [(''name'', v)]
        | Inl (ZodError issues) \<Rightarrow> Inl (ZodError (map (under_key ''name'') issues))
        | Inl error \<Rightarrow> Inl error)\<rparr>"

definition blankConfig :: "((string \<times> jsval) list) ActionizeInput" where
  "blankConfig = createActionConfig blankSchema (serverAction blankSchema Inr) [(''name'', JString [])]"

text \<open>
  The name field with a second check, \<open>.startsWith("A", "Name must start with A")\<close>, after
  its \<open>.min(1, "Name is required")\<close>, in an object schema of that one field. Both checks are
  run, so the empty string has two issues, in the order of the checks.
\<close>

definition strict_field :: "jsval \<Rightarrow> js_error + jsval" where
  "strict_field v =
     (case v of
        JString s \<Rightarrow>
          (let issues =
             (if 1 \<le> length s then []
              else [\<lparr>path = [], message = ''Name is required'', code = ''too_small''\<rparr>]) @
             (if take 1 s = ''A'' then []
              else [\<lparr>path = [], message = ''Name must start with A'', code = ''invalid_format''\<rparr>])
           in if issues = [] then Inr v else Inl (ZodError issues))
      | _ \<Rightarrow> Inl (ZodError [\<lparr>path = [],
                             message = ''Invalid input: expected string, received '' @ typeName v,
                             code = ''invalid_type''\<rparr>]))"

definition strictSchema :: "((string \<times> jsval) list) ZodObject" where
  "strictSchema =
     \<lparr>shape = [''name'' \<mapsto> strict_field],
      parse = (\<lambda>data.
        case strict_field (case data ''name'' of None \<Rightarrow> JUndefined | Some v \<Rightarrow> v) of
          Inr v \<Rightarrow> Inr [(''name'', v)]
        | Inl (ZodError issues) \<Rightarrow> Inl (ZodError (map (under_key ''name'') issues))
        | Inl error \<Rightarrow> Inl error)\<rparr>"

definition strictConfig :: "((string \<times> jsval) list) ActionizeInput" where
  "strictConfig =
     (createActionConfig strictSchema (serverAction strictSchema Inr) [(''name'', JString [])])
       \<lparr>onSuccess := Some returns_normally, onError := True\<rparr>"

text \<open>
  \<open>z.object({ token: z.string().refine(() => { throw new z.ZodError([]) }) })\<close>: a field whose
  refinement throws a \<open>ZodError\<close> that carries no issue.
\<close>

definition bare_field :: "jsval \<Rightarrow> js_error + jsval" where
  "bare_field v =
     (case v of
        JString s \<Rightarrow> Inl (ZodError [])
      | _ \<Rightarrow> Inl (ZodError [\<lparr>path = [],
                             message = ''Invalid input: expected string, received '' @ typeName v,
                             code = ''invalid_type''\<rparr>]))"

definition bareSchema :: "((string \<times> jsval) list) ZodObject" where
  "bareSchema =
     \<lparr>shape = [''token'' \<mapsto> bare_field],
      parse = (\<lambda>data.
        case bare_field (case data ''token'' of None \<Rightarrow> JUndefined | Some v \<Rightarrow> v) of
          Inr v \<Rightarrow> Inr [(''token'', v)]
        | Inl (ZodError issues) \<Rightarrow> Inl (ZodError (map (under_key ''token'') issues))
        | Inl error \<Rightarrow> Inl error)\<rparr>"

definition bareConfig :: "((string \<times> jsval) list) ActionizeInput" where
  "bareConfig = createActionConfig bareSchema (serverAction bareSchema Inr) [(''token'', JString [])]"

text \<open>
  The name schema with three refinements that each refuse the name \<open>admin\<close>: the first
  reports under the path \<open>account.name\<close>, the second gives no path, the third reports under
  \<open>account\<close>. Refinements run after the fields have passed, all of them, in order.
\<close>

definition guardedSchema :: "((string \<times> jsval) list) ZodObject" where
  "guardedSchema =
     \<lparr>shape = [''name'' \<mapsto> name_field],
      parse = (\<lambda>data.
        case parse nameSchema data of
          Inr parsed \<Rightarrow>
            if data ''name'' = Some (JString ''admin'')
            then Inl (ZodError
              [\<lparr>path = [''account'', ''name''], message = ''Name is reserved'', code = ''custom''\<rparr>,
               \<lparr>path = [], message = ''Form is invalid'', code = ''custom''\<rparr>,
               \<lparr>path = [''account''], message = ''Account is locked'', code = ''custom''\<rparr>])
            else Inr parsed
        | Inl error \<Rightarrow> Inl error)\<rparr>"

definition guardedConfig :: "((string \<times> jsval) list) ActionizeInput" where
  "guardedConfig =
     (createActionConfig guardedSchema (serverAction guardedSchema Inr) [(''name'', JString [])])
       \<lparr>onSuccess := Some throwing_callback, onError := True\<rparr>"

text \<open>
  The name schema with a cross-field refinement in the manner of the README's
  \<open>.refine(..., { message, path })\<close>: the name \<open>admin\<close> is refused, and the issue is reported
  under the path \<open>account\<close>, which is not a field of the shape.
\<close>

definition refinedSchema :: "((string \<times> jsval) list) ZodObject" where
  "refinedSchema =
     \<lparr>shape = [''name'' \<mapsto> name_field],
      parse = (\<lambda>data.
        case parse nameSchema data of
          Inr parsed \<Rightarrow>
            if data ''name'' = Some (JString ''admin'')
            then Inl (ZodError [\<lparr>path = [''account''], message = ''Name is reserved'', code = ''custom''\<rparr>])
            else Inr parsed
        | Inl error \<Rightarrow> Inl error)\<rparr>"

definition refinedConfig :: "((string \<times> jsval) list) ActionizeInput" where
  "refinedConfig =
     createActionConfig refinedSchema (serverAction refinedSchema Inr) [(''name'', JString [])]"

section \<open>What single-field validation and field events leave alone\<close>

lemma validateField_frame:
  "state (validateField cfg name v s) = state s"
  "formData (validateField cfg name v s) = formData s"
  "touchedFields (validateField cfg name v s) = touchedFields s"
  "isPending (validateField cfg name v s) = isPending s"
  "inflight (validateField cfg name v s) = inflight s"
  "effects (validateField cfg name v s) = effects s"
  by (simp_all add: validateField_def split: option.splits sum.splits js_error.splits)

lemma validateField_errors_cong:
  "errors s = errors t \<Longrightarrow> errors (validateField cfg name v s) = errors (validateField cfg name v t)"
  by (simp add: validateField_def split: option.splits sum.splits js_error.splits)

lemma field_event_frame:
  "is_field_event e \<Longrightarrow>
     state (step cfg s e) = state s \<and> isPending (step cfg s e) = isPending s \<and>
     inflight (step cfg s e) = inflight s \<and> effects (step cfg s e) = effects s"
  by (cases e) (simp_all add: onChange_def onBlur_def Let_def validateField_frame)

lemma field_events_frame:
  "list_all is_field_event es \<Longrightarrow>
     state (foldl (step cfg) s es) = state s \<and> isPending (foldl (step cfg) s es) = isPending s \<and>
     inflight (foldl (step cfg) s es) = inflight s \<and> effects (foldl (step cfg) s es) = effects s"
proof (induction es arbitrary: s)
  case Nil
  then show ?case by simp
next
  case (Cons e es)
  then have "is_field_event e" and "list_all is_field_event es" by simp_all
  with Cons.IH[of "step cfg s e"] field_event_frame[of e cfg s] show ?case by simp
qed

section \<open>The record built from the issues of a whole-form validation\<close>

lemma fieldErrors_snoc:
  "fieldErrors (issues @ [i]) =
     (case fieldName i of
        None \<Rightarrow> fieldErrors issues
      | Some f \<Rightarrow> (fieldErrors issues)(f \<mapsto> \<lparr>fe_message = message i, fe_type = code i\<rparr>))"
  by (simp add: fieldErrors_def split: option.splits)

lemma fieldErrors_Nil: "fieldErrors [] = Map.empty"
  by (simp add: fieldErrors_def)

lemma dom_fieldErrors:
  "dom (fieldErrors issues) = {f. \<exists>i \<in> set issues. fieldName i = Some f}"
proof (induction issues rule: rev_induct)
  case Nil
  show ?case by (simp add: fieldErrors_Nil)
next
  case (snoc i issues)
  show ?case
  proof (cases "fieldName i")
    case None
    then have "dom (fieldErrors (issues @ [i])) = dom (fieldErrors issues)"
      by (simp add: fieldErrors_snoc)
    also have "\<dots> = {f. \<exists>j \<in> set issues. fieldName j = Some f}"
      by (rule snoc.IH)
    also have "\<dots> = {f. \<exists>j \<in> set (issues @ [i]). fieldName j = Some f}"
      using None by auto
    finally show ?thesis .
  next
    case (Some g)
    then have "dom (fieldErrors (issues @ [i])) = insert g (dom (fieldErrors issues))"
      by (simp add: fieldErrors_snoc)
    also have "\<dots> = insert g {f. \<exists>j \<in> set issues. fieldName j = Some f}"
      by (simp only: snoc.IH)
    also have "\<dots> = {f. \<exists>j \<in> set (issues @ [i]). fieldName j = Some f}"
      using Some by auto
    finally show ?thesis .
  qed
qed

lemma fieldName_Some: "fieldName i = Some f \<longleftrightarrow> f \<noteq> [] \<and> take 1 (path i) = [f]"
  by (cases "path i") (auto simp: fieldName_def)

lemma fieldName_Some_path: "fieldName i = Some f \<longleftrightarrow> f \<noteq> [] \<and> (\<exists>rest. path i = f # rest)"
  by (cases "path i") (auto simp: fieldName_def)

lemma fieldErrors_last:
  "fieldErrors issues f =
     (case rev [i \<leftarrow> issues. fieldName i = Some f] of
        [] \<Rightarrow> None
      | i # _ \<Rightarrow> Some \<lparr>fe_message = message i, fe_type = code i\<rparr>)"
proof (induction issues rule: rev_induct)
  case Nil
  show ?case by (simp add: fieldErrors_Nil)
next
  case (snoc i issues)
  show ?case
  proof (cases "fieldName i")
    case None
    with snoc show ?thesis by (simp add: fieldErrors_snoc)
  next
    case (Some g)
    with snoc show ?thesis by (simp add: fieldErrors_snoc)
  qed
qed

lemma fieldErrors_lookup:
  "fieldErrors issues f =
     (if f = [] then None
      else case rev [i \<leftarrow> issues. take 1 (path i) = [f]] of
             [] \<Rightarrow> None
           | i # _ \<Rightarrow> Some \<lparr>fe_message = message i, fe_type = code i\<rparr>)"
proof (cases "f = []")
  case True
  then have "[i \<leftarrow> issues. fieldName i = Some f] = []"
    by (simp add: fieldName_Some)
  with True show ?thesis by (simp add: fieldErrors_last)
next
  case False
  then have "[i \<leftarrow> issues. fieldName i = Some f] = [i \<leftarrow> issues. take 1 (path i) = [f]]"
    by (simp add: fieldName_Some)
  with False show ?thesis by (simp add: fieldErrors_last)
qed

lemma dom_fieldErrors_paths:
  "dom (fieldErrors issues) = {p. p \<noteq> [] \<and> (\<exists>i \<in> set issues. \<exists>rest. path i = p # rest)}"
  unfolding dom_fieldErrors by (auto simp: fieldName_Some_path)

section \<open>The life of one transition\<close>

lemma startTransition_simps:
  "isPending (startTransition cfg fd s) = True"
  "inflight (startTransition cfg fd s) = inflight s @ [action cfg (state s) fd]"
  "effects (startTransition cfg fd s) = effects s @ [ActionCalled (state s) fd]"
  "errors (startTransition cfg fd s) = errors s"
  "state (startTransition cfg fd s) = state s"
  "formData (startTransition cfg fd s) = formData s"
  "touchedFields (startTransition cfg fd s) = touchedFields s"
  by (simp_all add: startTransition_def)

lemma settle_started:
  assumes "inflight t = pre @ [outcome]" and "effects t = eff"
  shows "isPending (settle cfg (length pre) t) = False"
    and "effects (settle cfg (length pre) t) = eff @ continuation cfg outcome"
    and "inflight (settle cfg (length pre) t) = pre"
    and "errors (settle cfg (length pre) t) = errors t"
  using assms by (simp_all add: settle_def)

lemma transition_lifecycle:
  assumes edits: "list_all is_field_event edits"
  shows "isPending (startTransition cfg fd s)"
    and "isPending (foldl (step cfg) (startTransition cfg fd s) edits)"
    and "\<not> isPending (settle cfg (length (inflight s)) (foldl (step cfg) (startTransition cfg fd s) edits))"
    and "effects (settle cfg (length (inflight s)) (foldl (step cfg) (startTransition cfg fd s) edits)) =
           effects s @ ActionCalled (state s) fd # continuation cfg (action cfg (state s) fd)"
proof -
  let ?s1 = "startTransition cfg fd s"
  let ?s2 = "foldl (step cfg) ?s1 edits"
  show "isPending ?s1" by (simp add: startTransition_simps)
  from field_events_frame[OF edits, of cfg ?s1]
  have fr: "isPending ?s2 = True" "inflight ?s2 = inflight s @ [action cfg (state s) fd]"
    "effects ?s2 = effects s @ [ActionCalled (state s) fd]"
    by (simp_all add: startTransition_simps)
  show "isPending ?s2" using fr(1) by simp
  show "\<not> isPending (settle cfg (length (inflight s)) ?s2)"
    using settle_started(1)[OF fr(2) fr(3)] by simp
  show "effects (settle cfg (length (inflight s)) ?s2) =
           effects s @ ActionCalled (state s) fd # continuation cfg (action cfg (state s) fd)"
    using settle_started(2)[OF fr(2) fr(3), of cfg] by simp
qed

lemma continuation_cases:
  "continuation cfg outcome =
     (case outcome of
        Inr result \<Rightarrow>
          (case onSuccess cfg of
             None \<Rightarrow> []
           | Some callback \<Rightarrow>
               OnSuccess result #
                 (case callback result of
                    None \<Rightarrow> []
                  | Some thrown \<Rightarrow> if onError cfg then [OnError thrown] else []))
      | Inl error \<Rightarrow> if onError cfg then [OnError error] else [])"
  by (simp add: continuation_def caught_def split: sum.splits option.splits)

section \<open>Joining, and the mapping of a form\<close>

lemma join_Cons: "join sep (x # xs) = x @ concat (map (\<lambda>y. sep @ y) xs)"
  by (induction xs arbitrary: x) simp_all

lemma join_messages:
  "join sep (map message issues) =
     (case issues of [] \<Rightarrow> [] | i # rest \<Rightarrow> message i @ concat (map (\<lambda>j. sep @ message j) rest))"
  by (cases issues) (simp_all add: join_Cons comp_def)

lemma fromEntries_foldl:
  "foldl (\<lambda>obj (k, v). obj(k \<mapsto> JString v)) m fd =
     m ++ map_of (rev (map (\<lambda>(k, v). (k, JString v)) fd))"
proof (induction fd arbitrary: m)
  case Nil
  show ?case by simp
next
  case (Cons e fd)
  obtain k v where e: "e = (k, v)" by (cases e)
  have "foldl (\<lambda>obj (k, v). obj(k \<mapsto> JString v)) m (e # fd) =
          foldl (\<lambda>obj (k, v). obj(k \<mapsto> JString v)) (m(k \<mapsto> JString v)) fd"
    by (simp add: e)
  also have "\<dots> = m(k \<mapsto> JString v) ++ map_of (rev (map (\<lambda>(k, v). (k, JString v)) fd))"
    by (rule Cons.IH)
  also have "\<dots> = m ++ map_of (rev (map (\<lambda>(k, v). (k, JString v)) (e # fd)))"
    by (simp add: e)
  finally show ?case .
qed

lemma fromEntries_map_of:
  "fromEntries fd = map_of (rev (map (\<lambda>(k, v). (k, JString v)) fd))"
  by (simp add: fromEntries_def fromEntries_foldl)

section \<open>Facts about the example configurations\<close>

lemma nameSchema_Alice:
  "parse nameSchema (dataToSubmit (Some [(''name'', JString ''Alice'')])) = Inr [(''name'', JString ''Alice'')]"
  "parse nameSchema (fromEntries [(''name'', ''Alice'')]) = Inr [(''name'', JString ''Alice'')]"
  "synthetic (Some [(''name'', JString ''Alice'')]) = [(''name'', ''Alice'')]"
  by (simp_all add: nameSchema_def dataToSubmit_def fromEntries_def name_field_def synthetic_def)

lemma nameConfig_simps:
  "schema (nameConfig h) = nameSchema"
  "action (nameConfig h) = serverAction nameSchema h"
  "initialData (nameConfig h) = [(''name'', JString [])]"
  "onSuccess (nameConfig h) = Some returns_normally"
  "onError (nameConfig h) = True"
  by (simp_all add: nameConfig_def createActionConfig_def)

lemma nameSchema_issue_fields:
  "parse nameSchema data = Inl (ZodError issues) \<Longrightarrow> i \<in> set issues \<Longrightarrow>
     fieldName i = Some f \<Longrightarrow> f = ''name''"
  by (auto simp: nameSchema_def name_field_def under_key_def fieldName_def
      split: option.splits jsval.splits if_splits)

section \<open>executeAction\<close>

text \<open>
  C1, as amended. With the name schema, a handler that fulfils on \<open>{name: "Alice"}\<close> and any
  \<open>onSuccess\<close> callback provided, \<open>executeAction({name: "Alice"})\<close> in any state leaves the
  errors as they are (it is \<open>formAction\<close> that clears them), raises the pending flag, which
  stays raised through every field edit delivered while the action is in flight and drops when
  the action settles, and after settling the action has been called once, with the stringified
  data, and \<open>onSuccess\<close> once, with the handler's result; only if \<open>onSuccess\<close> itself throws
  does \<open>onError\<close> follow, with what it threw.
\<close>

theorem executeAction_success_path:
  assumes "handler [(''name'', JString ''Alice'')] = Inr result"
    and "list_all is_field_event edits"
    and "cfg = (nameConfig handler)\<lparr>onSuccess := Some callback\<rparr>"
  shows "errors (executeAction cfg (Some [(''name'', JString ''Alice'')]) s) = errors s \<and>
         isPending (executeAction cfg (Some [(''name'', JString ''Alice'')]) s) \<and>
         isPending (foldl (step cfg)
            (executeAction cfg (Some [(''name'', JString ''Alice'')]) s) edits) \<and>
         \<not> isPending (settle cfg (length (inflight s))
            (foldl (step cfg)
              (executeAction cfg (Some [(''name'', JString ''Alice'')]) s) edits)) \<and>
         effects (settle cfg (length (inflight s))
            (foldl (step cfg)
              (executeAction cfg (Some [(''name'', JString ''Alice'')]) s) edits)) =
           effects s @ [ActionCalled (state s) [(''name'', ''Alice'')], OnSuccess result] @
             (case callback result of None \<Rightarrow> [] | Some thrown \<Rightarrow> [OnError thrown])"
proof -
  have cfg: "schema cfg = nameSchema" "action cfg = serverAction nameSchema handler"
    "onSuccess cfg = Some callback" "onError cfg = True"
    by (simp_all add: assms(3) nameConfig_simps)
  have ex: "executeAction cfg (Some [(''name'', JString ''Alice'')]) s =
              startTransition cfg [(''name'', ''Alice'')] s"
    by (simp add: executeAction_def cfg nameSchema_Alice)
  have act: "action cfg (state s) [(''name'', ''Alice'')] = Inr result"
    using assms(1) by (simp add: cfg serverAction_def createServerAction_def nameSchema_Alice)
  have cont: "continuation cfg (Inr result) =
      OnSuccess result # (case callback result of None \<Rightarrow> [] | Some thrown \<Rightarrow> [OnError thrown])"
    by (simp add: continuation_cases cfg split: option.splits)
  show ?thesis
    unfolding ex
    using transition_lifecycle[OF assms(2), where cfg = cfg and fd = "[(''name'', ''Alice'')]" and s = s]
    by (simp add: act cont startTransition_simps)
qed

text \<open>With a callback that returns normally, and with one that throws.\<close>

theorem executeAction_success_path_witness:
  "Inr [(''name'', JString ''Alice'')] =
     (Inr [(''name'', JString ''Alice'')] :: js_error + (string \<times> jsval) list) \<and>
   list_all is_field_event [Change ''name'' ''Alice''] \<and>
   errors (executeAction (nameConfig Inr) (Some [(''name'', JString ''Alice'')])
             (init (nameConfig Inr))) = Map.empty \<and>
   isPending (executeAction (nameConfig Inr) (Some [(''name'', JString ''Alice'')])
             (init (nameConfig Inr))) \<and>
   \<not> isPending (settle (nameConfig Inr) 0
        (foldl (step (nameConfig Inr))
          (executeAction (nameConfig Inr) (Some [(''name'', JString ''Alice'')])
             (init (nameConfig Inr)))
          [Change ''name'' ''Alice''])) \<and>
   effects (settle (nameConfig Inr) 0
        (foldl (step (nameConfig Inr))
          (executeAction (nameConfig Inr) (Some [(''name'', JString ''Alice'')])
             (init (nameConfig Inr)))
          [Change ''name'' ''Alice''])) =
     [ActionCalled [(''name'', JString [])] [(''name'', ''Alice'')],
      OnSuccess [(''name'', JString ''Alice'')]] \<and>
   effects (settle ((nameConfig Inr)\<lparr>onSuccess := Some throwing_callback\<rparr>) 0
        (executeAction ((nameConfig Inr)\<lparr>onSuccess := Some throwing_callback\<rparr>)
           (Some [(''name'', JString ''Alice'')])
           (init ((nameConfig Inr)\<lparr>onSuccess := Some throwing_callback\<rparr>)))) =
     [ActionCalled [(''name'', JString [])] [(''name'', ''Alice'')],
      OnSuccess [(''name'', JString ''Alice'')],
      OnError (Error ''Callback failed'')]"
  using executeAction_success_path
    [where handler = Inr and result = "[(''name'', JString ''Alice'')]"
       and edits = "[Change ''name'' ''Alice'']" and s = "init (nameConfig Inr)"
       and callback = returns_normally and cfg = "nameConfig Inr"]
    executeAction_success_path
    [where handler = Inr and result = "[(''name'', JString ''Alice'')]"
       and edits = "[]"
       and s = "init ((nameConfig Inr)\<lparr>onSuccess := Some throwing_callback\<rparr>)"
       and callback = throwing_callback
       and cfg = "(nameConfig Inr)\<lparr>onSuccess := Some throwing_callback\<rparr>"]
  by (simp add: init_def nameConfig_def createActionConfig_def returns_normally_def
      throwing_callback_def)

text \<open>
  The claim as stated fails on the errors: after a blur of the empty \<open>name\<close> field has stored
  an error, \<open>executeAction({name: "Alice"})\<close> validates, starts the action, and the stored
  error is still there.
\<close>

theorem executeAction_success_path_counterexample:
  "errors (run (nameConfig Inr)
       [Blur ''name'' [], ExecuteAction (Some [(''name'', JString ''Alice'')])]) ''name'' =
     Some \<lparr>fe_message = ''Name is required'', fe_type = ''too_small''\<rparr> \<and>
   errors (run (nameConfig Inr)
       [Blur ''name'' [], ExecuteAction (Some [(''name'', JString ''Alice'')])]) \<noteq> Map.empty \<and>
   isPending (run (nameConfig Inr)
       [Blur ''name'' [], ExecuteAction (Some [(''name'', JString ''Alice'')])])"
  by (simp add: run_def init_def nameConfig_simps onBlur_def validateField_def executeAction_def
      nameSchema_def name_field_def dataToSubmit_def startTransition_def)

text \<open>
  C3, as amended. \<open>executeAction\<close> validates the \<open>data\<close> argument itself, as it was given
  (not the stringified collection), and the empty collection when no data is given. When that
  validation fails with issues, \<open>onError\<close> (if provided) is called once with an \<open>Error\<close> whose
  message is the messages of all the issues, in order, with \<open>", "\<close> between them, and nothing
  else changes: no transition is started and the errors state is as before. When it succeeds,
  the flag is raised and the action is called on the synthetic collection, which holds the
  entries of \<open>data\<close> in order with every value stringified.
\<close>

theorem executeAction_validation_failure:
  "(parse (schema cfg) (map_of d) = Inl (ZodError issues) \<longrightarrow>
      executeAction cfg (Some d) s =
        s\<lparr>effects := effects s @
             (if onError cfg
              then [OnError (Error
                     (case issues of
                        [] \<Rightarrow> []
                      | i # rest \<Rightarrow> message i @ concat (map (\<lambda>j. '', '' @ message j) rest)))]
              else [])\<rparr> \<and>
      errors (executeAction cfg (Some d) s) = errors s \<and>
      isPending (executeAction cfg (Some d) s) = isPending s \<and>
      inflight (executeAction cfg (Some d) s) = inflight s) \<and>
   (parse (schema cfg) Map.empty = Inl (ZodError issues') \<longrightarrow>
      executeAction cfg None s =
        s\<lparr>effects := effects s @
             (if onError cfg
              then [OnError (Error
                     (case issues' of
                        [] \<Rightarrow> []
                      | i # rest \<Rightarrow> message i @ concat (map (\<lambda>j. '', '' @ message j) rest)))]
              else [])\<rparr> \<and>
      errors (executeAction cfg None s) = errors s \<and>
      isPending (executeAction cfg None s) = isPending s \<and>
      inflight (executeAction cfg None s) = inflight s) \<and>
   (parse (schema cfg) (map_of d') = Inr parsed \<longrightarrow>
      executeAction cfg (Some d') s =
        s\<lparr>isPending := True,
          inflight := inflight s @
            [action cfg (state s) (map (\<lambda>(key, val). (key, toString val)) d')],
          effects := effects s @
            [ActionCalled (state s) (map (\<lambda>(key, val). (key, toString val)) d')]\<rparr>)"
  by (simp add: executeAction_def dataToSubmit_def synthetic_def join_messages startTransition_def)

text \<open>
  A value of the wrong type that would pass once stringified; a value with two issues; no
  data; a failure without \<open>onError\<close>; and data holding a value of every kind, which the
  schema of the boolean field accepts (it looks at its own field only).
\<close>

theorem executeAction_validation_failure_witness:
  "executeAction (nameConfig Inr) (Some [(''name'', JBoolean True)]) (init (nameConfig Inr)) =
     (init (nameConfig Inr))
       \<lparr>effects := [OnError (Error ''Invalid input: expected string, received boolean'')]\<rparr> \<and>
   executeAction strictConfig (Some [(''name'', JString [])]) (init strictConfig) =
     (init strictConfig)
       \<lparr>effects := [OnError (Error ''Name is required, Name must start with A'')]\<rparr> \<and>
   executeAction (nameConfig Inr) None (init (nameConfig Inr)) =
     (init (nameConfig Inr))
       \<lparr>effects := [OnError (Error ''Invalid input: expected string, received undefined'')]\<rparr> \<and>
   executeAction blankConfig (Some [(''name'', JString [])]) (init blankConfig) =
     init blankConfig \<and>
   executeAction agreeConfig (Some [(''agree'', JBoolean False), (''note'', JNull),
       (''name'', JString ''Al''), (''extra'', JUndefined)]) (init agreeConfig) =
     (init agreeConfig)
       \<lparr>isPending := True,
        inflight := [Inl (Error ''Invalid input: expected boolean, received string'')],
        effects := [ActionCalled [(''agree'', JBoolean False)]
          [(''agree'', ''false''), (''note'', ''null''), (''name'', ''Al''),
           (''extra'', ''undefined'')]]\<rparr>"
  using executeAction_validation_failure
    [where cfg = "nameConfig Inr" and s = "init (nameConfig Inr)"
       and d = "[(''name'', JBoolean True)]"
       and issues = "[\<lparr>path = [''name''],
                       message = ''Invalid input: expected string, received boolean'',
                       code = ''invalid_type''\<rparr>]"
       and issues' = "[\<lparr>path = [''name''],
                       message = ''Invalid input: expected string, received undefined'',
                       code = ''invalid_type''\<rparr>]"
       and d' = "[(''name'', JString ''Alice'')]" and parsed = "[(''name'', JString ''Alice'')]"]
    executeAction_validation_failure
    [where cfg = strictConfig and s = "init strictConfig"
       and d = "[(''name'', JString [])]"
       and issues = "[\<lparr>path = [''name''], message = ''Name is required'', code = ''too_small''\<rparr>,
                      \<lparr>path = [''name''], message = ''Name must start with A'',
                       code = ''invalid_format''\<rparr>]"]
    executeAction_validation_failure
    [where cfg = blankConfig and s = "init blankConfig"
       and d = "[(''name'', JString [])]"
       and issues = "[\<lparr>path = [''name''], message = [], code = ''too_small''\<rparr>]"]
    executeAction_validation_failure
    [where cfg = agreeConfig and s = "init agreeConfig"
       and d' = "[(''agree'', JBoolean False), (''note'', JNull),
                  (''name'', JString ''Al''), (''extra'', JUndefined)]"
       and parsed = "[(''agree'', JBoolean False)]"]
  by (simp add: nameConfig_simps nameSchema_def name_field_def under_key_def init_def
      strictConfig_def strictSchema_def strict_field_def blankConfig_def blankSchema_def
      blank_field_def agreeConfig_def agreeSchema_def agree_field_def createActionConfig_def
      serverAction_def createServerAction_def fromEntries_def)

text \<open>
  The claim as stated fails for a field that is not a string: the synthetic collection built
  from \<open>{agree: true}\<close> does not pass the schema, yet \<open>executeAction\<close> validates the data as
  given, starts the action, and \<open>onError\<close> is not called for a validation failure.
\<close>

theorem executeAction_validation_failure_counterexample:
  "parse (schema agreeConfig) (fromEntries (synthetic (Some [(''agree'', JBoolean True)]))) =
     Inl (ZodError [\<lparr>path = [''agree''],
                     message = ''Invalid input: expected boolean, received string'',
                     code = ''invalid_type''\<rparr>]) \<and>
   isPending (executeAction agreeConfig (Some [(''agree'', JBoolean True)]) (init agreeConfig)) \<and>
   effects (executeAction agreeConfig (Some [(''agree'', JBoolean True)]) (init agreeConfig)) =
     [ActionCalled [(''agree'', JBoolean False)] [(''agree'', ''true'')]]"
  by (simp add: agreeConfig_def createActionConfig_def agreeSchema_def agree_field_def under_key_def
      fromEntries_def synthetic_def executeAction_def dataToSubmit_def startTransition_def init_def)

section \<open>createServerAction: validation failure and handler errors\<close>

text \<open>
  C5. When the mapping converted from the raw input (a later entry of a name replacing an
  earlier one) fails schema validation, that is, \<open>schema.parse\<close> throws a \<open>ZodError\<close>, the
  built action rejects with an \<open>Error\<close> whose message is the messages of all the issues, in
  order, with \<open>", "\<close> between them, and the handler is not invoked: the list of handler calls
  is empty.
\<close>

theorem createServerAction_validation_failure:
  "parse sch (map_of (rev (map (\<lambda>(k, v). (k, JString v)) fd))) = Inl (ZodError issues) \<Longrightarrow>
   createServerAction sch handler prevState fd =
     ([], Inl (Error
        (case issues of
           [] \<Rightarrow> []
         | i # rest \<Rightarrow> message i @ concat (map (\<lambda>j. '', '' @ message j) rest))))"
  by (simp add: createServerAction_def fromEntries_map_of join_messages)

text \<open>
  The name schema on a form whose \<open>name\<close> is empty, and the schema with two checks on a form
  that gives \<open>name\<close> twice, the second time empty: two issues, and the handler, which would
  fulfil, is not called.
\<close>

theorem createServerAction_validation_failure_witness:
  "parse nameSchema (map_of (rev (map (\<lambda>(k, v). (k, JString v)) [(''name'', [])]))) =
     Inl (ZodError [\<lparr>path = [''name''], message = ''Name is required'', code = ''too_small''\<rparr>]) \<and>
   createServerAction nameSchema Inr [] [(''name'', [])] =
     ([], Inl (Error ''Name is required'')) \<and>
   parse strictSchema
       (map_of (rev (map (\<lambda>(k, v). (k, JString v)) [(''name'', ''Ann''), (''name'', [])]))) =
     Inl (ZodError
       [\<lparr>path = [''name''], message = ''Name is required'', code = ''too_small''\<rparr>,
        \<lparr>path = [''name''], message = ''Name must start with A'', code = ''invalid_format''\<rparr>]) \<and>
   createServerAction strictSchema Inr [] [(''name'', ''Ann''), (''name'', [])] =
     ([], Inl (Error ''Name is required, Name must start with A''))"
  using createServerAction_validation_failure
    [where sch = nameSchema and fd = "[(''name'', [])]" and handler = Inr and prevState = "[]"
       and issues = "[\<lparr>path = [''name''], message = ''Name is required'', code = ''too_small''\<rparr>]"]
    createServerAction_validation_failure
    [where sch = strictSchema and fd = "[(''name'', ''Ann''), (''name'', [])]" and handler = Inr
       and prevState = "[]"
       and issues = "[\<lparr>path = [''name''], message = ''Name is required'', code = ''too_small''\<rparr>,
                      \<lparr>path = [''name''], message = ''Name must start with A'',
                       code = ''invalid_format''\<rparr>]"]
  by (simp add: nameSchema_def name_field_def strictSchema_def strict_field_def under_key_def)

text \<open>
  C4, as amended. For an input that passes schema validation, an error the handler throws (or
  rejects with) reaches the caller unchanged provided it is not itself a \<open>ZodError\<close>; the
  handler was invoked once, with the parsed data.
\<close>

theorem createServerAction_handler_error:
  "parse sch (fromEntries fd) = Inr parsedData \<Longrightarrow>
   handler parsedData = Inl error \<Longrightarrow>
   \<not> instanceof_ZodError error \<Longrightarrow>
   createServerAction sch handler prevState fd = ([parsedData], Inl error)"
  by (cases error) (simp_all add: createServerAction_def)

theorem createServerAction_handler_error_witness:
  "parse nameSchema (fromEntries [(''name'', ''Alice'')]) = Inr [(''name'', JString ''Alice'')] \<and>
   unavailable_handler [(''name'', JString ''Alice'')] = Inl (Error ''Service unavailable'') \<and>
   \<not> instanceof_ZodError (Error ''Service unavailable'') \<and>
   createServerAction nameSchema unavailable_handler [] [(''name'', ''Alice'')] =
     ([[(''name'', JString ''Alice'')]], Inl (Error ''Service unavailable''))"
  using createServerAction_handler_error
    [of nameSchema "[(''name'', ''Alice'')]" "[(''name'', JString ''Alice'')]"
      unavailable_handler "Error ''Service unavailable''" "[]"]
  by (simp add: nameSchema_def fromEntries_def name_field_def unavailable_handler_def)

text \<open>
  The claim as stated fails when the handler's own error is a \<open>ZodError\<close>: the handler runs
  inside the \<open>try\<close>, so the \<open>catch\<close> replaces its error by a new \<open>Error\<close> carrying the joined
  messages.
\<close>

theorem createServerAction_handler_error_counterexample:
  "parse nameSchema (fromEntries [(''name'', ''Alice'')]) = Inr [(''name'', JString ''Alice'')] \<and>
   reparsing_handler [(''name'', JString ''Alice'')] =
     Inl (ZodError [\<lparr>path = [''id''], message = ''Stored record is malformed'',
                     code = ''invalid_type''\<rparr>]) \<and>
   snd (createServerAction nameSchema reparsing_handler [] [(''name'', ''Alice'')]) =
     Inl (Error ''Stored record is malformed'') \<and>
   snd (createServerAction nameSchema reparsing_handler [] [(''name'', ''Alice'')]) \<noteq>
     reparsing_handler [(''name'', JString ''Alice'')]"
  by (simp add: createServerAction_def nameSchema_def fromEntries_def name_field_def
      reparsing_handler_def)

section \<open>formAction\<close>

text \<open>
  C2. \<open>formAction\<close> converts the raw form input to a mapping (a later entry of a name
  replacing an earlier one) and validates it as a whole. If validation fails with issues,
  only the errors change, and they are replaced as a whole: the keys are exactly the non-empty
  first path segments of the issues, an issue with an empty path or an empty first segment is
  dropped, and each key holds the message and code of the last issue that starts with it; the
  pending flag, the actions in flight and the calls made are untouched, so no transition is
  started and no callback is called. If validation succeeds, the errors are empty, the action
  is called with the current state and the raw input, the pending flag is raised and stays
  raised through later field edits, and when the action settles the flag drops,
  \<open>onSuccess\<close> receives the result of a fulfilment and \<open>onError\<close> the error of a rejection
  (or what \<open>onSuccess\<close> threw), each only if provided.
\<close>

theorem formAction_validation_gate:
  "(parse (schema cfg) (map_of (rev (map (\<lambda>(k, v). (k, JString v)) fd))) =
        Inl (ZodError issues) \<longrightarrow>
      enhancedFormAction cfg fd s = s\<lparr>errors := errors (enhancedFormAction cfg fd s)\<rparr> \<and>
      dom (errors (enhancedFormAction cfg fd s)) =
        {p. p \<noteq> [] \<and> (\<exists>i \<in> set issues. \<exists>rest. path i = p # rest)} \<and>
      errors (enhancedFormAction cfg fd s) f =
        (if f = [] then None
         else case rev [i \<leftarrow> issues. take 1 (path i) = [f]] of
                [] \<Rightarrow> None
              | i # _ \<Rightarrow> Some \<lparr>fe_message = message i, fe_type = code i\<rparr>) \<and>
      isPending (enhancedFormAction cfg fd s) = isPending s \<and>
      inflight (enhancedFormAction cfg fd s) = inflight s \<and>
      effects (enhancedFormAction cfg fd s) = effects s) \<and>
   (parse (schema cfg) (map_of (rev (map (\<lambda>(k, v). (k, JString v)) fd'))) = Inr parsed \<longrightarrow>
    list_all is_field_event edits \<longrightarrow>
      errors (enhancedFormAction cfg fd' s) = Map.empty \<and>
      isPending (enhancedFormAction cfg fd' s) \<and>
      inflight (enhancedFormAction cfg fd' s) = inflight s @ [action cfg (state s) fd'] \<and>
      effects (enhancedFormAction cfg fd' s) = effects s @ [ActionCalled (state s) fd'] \<and>
      isPending (foldl (step cfg) (enhancedFormAction cfg fd' s) edits) \<and>
      \<not> isPending (settle cfg (length (inflight s))
            (foldl (step cfg) (enhancedFormAction cfg fd' s) edits)) \<and>
      effects (settle cfg (length (inflight s))
            (foldl (step cfg) (enhancedFormAction cfg fd' s) edits)) =
        effects s @ ActionCalled (state s) fd' #
          (case action cfg (state s) fd' of
             Inr result \<Rightarrow>
               (case onSuccess cfg of
                  None \<Rightarrow> []
                | Some callback \<Rightarrow>
                    OnSuccess result #
                      (case callback result of
                         None \<Rightarrow> []
                       | Some thrown \<Rightarrow> if onError cfg then [OnError thrown] else []))
           | Inl error \<Rightarrow> if onError cfg then [OnError error] else []))"
proof (intro conjI impI)
  assume "parse (schema cfg) (map_of (rev (map (\<lambda>(k, v). (k, JString v)) fd))) =
            Inl (ZodError issues)"
  then have st: "enhancedFormAction cfg fd s = s\<lparr>errors := fieldErrors issues\<rparr>"
    by (simp add: enhancedFormAction_def fromEntries_map_of)
  show "enhancedFormAction cfg fd s = s\<lparr>errors := errors (enhancedFormAction cfg fd s)\<rparr>"
    by (simp add: st)
  show "dom (errors (enhancedFormAction cfg fd s)) =
          {p. p \<noteq> [] \<and> (\<exists>i \<in> set issues. \<exists>rest. path i = p # rest)}"
    by (simp add: st dom_fieldErrors_paths)
  show "errors (enhancedFormAction cfg fd s) f =
        (if f = [] then None
         else case rev [i \<leftarrow> issues. take 1 (path i) = [f]] of
                [] \<Rightarrow> None
              | i # _ \<Rightarrow> Some \<lparr>fe_message = message i, fe_type = code i\<rparr>)"
    unfolding st using fieldErrors_lookup[of issues f] by simp
  show "isPending (enhancedFormAction cfg fd s) = isPending s"
    and "inflight (enhancedFormAction cfg fd s) = inflight s"
    and "effects (enhancedFormAction cfg fd s) = effects s"
    by (simp_all add: st)
next
  assume ok: "parse (schema cfg) (map_of (rev (map (\<lambda>(k, v). (k, JString v)) fd'))) = Inr parsed"
    and edits: "list_all is_field_event edits"
  let ?t = "s\<lparr>errors := Map.empty\<rparr>"
  have st: "enhancedFormAction cfg fd' s = startTransition cfg fd' ?t"
    using ok by (simp add: enhancedFormAction_def fromEntries_map_of)
  show "errors (enhancedFormAction cfg fd' s) = Map.empty"
    and "isPending (enhancedFormAction cfg fd' s)"
    and "inflight (enhancedFormAction cfg fd' s) = inflight s @ [action cfg (state s) fd']"
    and "effects (enhancedFormAction cfg fd' s) = effects s @ [ActionCalled (state s) fd']"
    by (simp_all add: st startTransition_simps)
  show "isPending (foldl (step cfg) (enhancedFormAction cfg fd' s) edits)"
    unfolding st using transition_lifecycle(2)[OF edits, where cfg = cfg and fd = fd' and s = ?t] .
  show "\<not> isPending (settle cfg (length (inflight s))
            (foldl (step cfg) (enhancedFormAction cfg fd' s) edits))"
    unfolding st using transition_lifecycle(3)[OF edits, where cfg = cfg and fd = fd' and s = ?t]
    by simp
  show "effects (settle cfg (length (inflight s))
            (foldl (step cfg) (enhancedFormAction cfg fd' s) edits)) =
        effects s @ ActionCalled (state s) fd' #
          (case action cfg (state s) fd' of
             Inr result \<Rightarrow>
               (case onSuccess cfg of
                  None \<Rightarrow> []
                | Some callback \<Rightarrow>
                    OnSuccess result #
                      (case callback result of
                         None \<Rightarrow> []
                       | Some thrown \<Rightarrow> if onError cfg then [OnError thrown] else []))
           | Inl error \<Rightarrow> if onError cfg then [OnError error] else [])"
    unfolding st using transition_lifecycle(4)[OF edits, where cfg = cfg and fd = fd' and s = ?t]
    by (simp add: continuation_cases)
qed

text \<open>
  The test suite's schema on an empty name, and on a form that gives the name twice; the
  schema with two checks, whose second issue is the one kept; and the schema with three
  refinements, whose issues with the paths \<open>account.name\<close>, none and \<open>account\<close> leave the one
  key \<open>account\<close> with the last message. With that configuration's throwing \<open>onSuccess\<close>, a
  valid form ends in \<open>onSuccess\<close> followed by \<open>onError\<close>; a rejecting handler ends in
  \<open>onError\<close> alone.
\<close>

theorem formAction_validation_gate_witness:
  "enhancedFormAction (nameConfig Inr) [(''name'', [])] (init (nameConfig Inr)) =
     (init (nameConfig Inr))
       \<lparr>errors := [''name'' \<mapsto> \<lparr>fe_message = ''Name is required'', fe_type = ''too_small''\<rparr>]\<rparr> \<and>
   enhancedFormAction (nameConfig Inr) [(''name'', ''Alice''), (''name'', [])]
       (init (nameConfig Inr)) =
     (init (nameConfig Inr))
       \<lparr>errors := [''name'' \<mapsto> \<lparr>fe_message = ''Name is required'', fe_type = ''too_small''\<rparr>]\<rparr> \<and>
   enhancedFormAction strictConfig [(''name'', [])] (init strictConfig) =
     (init strictConfig)
       \<lparr>errors := [''name'' \<mapsto>
          \<lparr>fe_message = ''Name must start with A'', fe_type = ''invalid_format''\<rparr>]\<rparr> \<and>
   enhancedFormAction guardedConfig [(''name'', ''admin'')] (init guardedConfig) =
     (init guardedConfig)
       \<lparr>errors := [''account'' \<mapsto> \<lparr>fe_message = ''Account is locked'', fe_type = ''custom''\<rparr>]\<rparr> \<and>
   errors (enhancedFormAction (nameConfig Inr) [(''name'', []), (''name'', ''Alice'')]
       (enhancedFormAction (nameConfig Inr) [(''name'', [])] (init (nameConfig Inr)))) =
     Map.empty \<and>
   effects (settle (nameConfig Inr) 0
        (foldl (step (nameConfig Inr))
          (enhancedFormAction (nameConfig Inr) [(''name'', []), (''name'', ''Alice'')]
             (init (nameConfig Inr)))
          [Change ''name'' ''Alice''])) =
     [ActionCalled [(''name'', JString [])] [(''name'', []), (''name'', ''Alice'')],
      OnSuccess [(''name'', JString ''Alice'')]] \<and>
   effects (settle guardedConfig 0
        (enhancedFormAction guardedConfig [(''name'', ''Bob'')] (init guardedConfig))) =
     [ActionCalled [(''name'', JString [])] [(''name'', ''Bob'')],
      OnSuccess [(''name'', JString ''Bob'')],
      OnError (Error ''Callback failed'')] \<and>
   effects (settle (nameConfig unavailable_handler) 0
        (enhancedFormAction (nameConfig unavailable_handler) [(''name'', ''Bob'')]
           (init (nameConfig unavailable_handler)))) =
     [ActionCalled [(''name'', JString [])] [(''name'', ''Bob'')],
      OnError (Error ''Service unavailable'')]"
  using formAction_validation_gate
    [where cfg = "nameConfig Inr" and fd = "[(''name'', [])]" and s = "init (nameConfig Inr)"
       and issues = "[\<lparr>path = [''name''], message = ''Name is required'', code = ''too_small''\<rparr>]"
       and f = "''name''"
       and fd' = "[(''name'', []), (''name'', ''Alice'')]"
       and parsed = "[(''name'', JString ''Alice'')]"
       and edits = "[Change ''name'' ''Alice'']"]
    formAction_validation_gate
    [where cfg = guardedConfig and fd = "[(''name'', ''admin'')]" and s = "init guardedConfig"
       and issues =
         "[\<lparr>path = [''account'', ''name''], message = ''Name is reserved'', code = ''custom''\<rparr>,
           \<lparr>path = [], message = ''Form is invalid'', code = ''custom''\<rparr>,
           \<lparr>path = [''account''], message = ''Account is locked'', code = ''custom''\<rparr>]"
       and f = "''account''"
       and fd' = "[(''name'', ''Bob'')]" and parsed = "[(''name'', JString ''Bob'')]"
       and edits = "[]"]
  by (simp add: nameConfig_simps nameConfig_def guardedConfig_def strictConfig_def
      createActionConfig_def nameSchema_def name_field_def strictSchema_def strict_field_def
      guardedSchema_def under_key_def fromEntries_def fieldErrors_def fieldName_def
      enhancedFormAction_def startTransition_def settle_def continuation_def caught_def
      init_def serverAction_def createServerAction_def onChange_def
      returns_normally_def throwing_callback_def unavailable_handler_def)

section \<open>Field bindings\<close>

lemma touchedFields_step: "touchedFields s \<subseteq> touchedFields (step cfg s e)"
  by (cases e)
    (auto simp: onChange_def onBlur_def Let_def validateField_frame enhancedFormAction_def
      executeAction_def startTransition_def settle_def split: sum.splits js_error.splits)

lemma touchedFields_run: "touchedFields s \<subseteq> touchedFields (foldl (step cfg) s evs)"
proof (induction evs arbitrary: s)
  case Nil
  show ?case by simp
next
  case (Cons e evs)
  have "touchedFields s \<subseteq> touchedFields (step cfg s e)" by (rule touchedFields_step)
  also have "\<dots> \<subseteq> touchedFields (foldl (step cfg) (step cfg s e) evs)" by (rule Cons.IH)
  finally show ?case by simp
qed

lemma onChange_untouched:
  "name \<notin> touchedFields s \<Longrightarrow> onChange cfg name val s = s\<lparr>formData := (formData s)(name \<mapsto> val)\<rparr>"
  by (simp add: onChange_def)

lemma changes_only:
  "list_all is_Change evs \<Longrightarrow> touchedFields s = {} \<Longrightarrow>
     touchedFields (foldl (step cfg) s evs) = {} \<and> errors (foldl (step cfg) s evs) = errors s"
proof (induction evs arbitrary: s)
  case Nil
  then show ?case by simp
next
  case (Cons e evs)
  then obtain name val where e: "e = Change name val" by (cases e) simp_all
  from Cons.prems have st: "step cfg s e = s\<lparr>formData := (formData s)(name \<mapsto> val)\<rparr>"
    by (simp add: e onChange_untouched)
  from Cons.prems have "list_all is_Change evs" by simp
  from Cons.IH[OF this, of "step cfg s e"] Cons.prems(2) show ?case by (simp add: st)
qed

text \<open>
  C6. A change of a field that is not in the touched set leaves the errors as they are, and
  on a fresh controller no sequence of changes, however invalid the values, creates an error
  entry. A blur adds the field to the touched set (a second blur adds nothing) and stores the
  errors of validating the field. Once a field is in the touched set it stays there through
  every later event, and every change of it stores the errors of validating it.
\<close>

theorem touched_gating:
  "(name \<notin> touchedFields s \<longrightarrow> errors (onChange cfg name val s) = errors s) \<and>
   (list_all is_Change evs \<longrightarrow> errors (run cfg evs) = Map.empty) \<and>
   touchedFields (onBlur cfg name val s) = insert name (touchedFields s) \<and>
   touchedFields (onBlur cfg name val' (onBlur cfg name val s)) = touchedFields (onBlur cfg name val s) \<and>
   errors (onBlur cfg name val s) = errors (validateField cfg name (JString val) s) \<and>
   (name \<in> touchedFields s \<longrightarrow>
      errors (onChange cfg name val (foldl (step cfg) s later)) =
        errors (validateField cfg name (JString val) (foldl (step cfg) s later)))"
proof (intro conjI impI)
  assume "name \<notin> touchedFields s"
  then show "errors (onChange cfg name val s) = errors s" by (simp add: onChange_untouched)
next
  assume "list_all is_Change evs"
  from changes_only[OF this, of "init cfg" cfg] show "errors (run cfg evs) = Map.empty"
    by (simp add: run_def init_def)
next
  show "touchedFields (onBlur cfg name val s) = insert name (touchedFields s)"
    by (simp add: onBlur_def validateField_frame)
  show "touchedFields (onBlur cfg name val' (onBlur cfg name val s)) = touchedFields (onBlur cfg name val s)"
    by (simp add: onBlur_def validateField_frame)
  show "errors (onBlur cfg name val s) = errors (validateField cfg name (JString val) s)"
    unfolding onBlur_def by (rule validateField_errors_cong) simp
next
  assume "name \<in> touchedFields s"
  with touchedFields_run[of s cfg later] have "name \<in> touchedFields (foldl (step cfg) s later)" by blast
  then have "onChange cfg name val (foldl (step cfg) s later) =
      validateField cfg name (JString val)
        ((foldl (step cfg) s later)\<lparr>formData := (formData (foldl (step cfg) s later))(name \<mapsto> val)\<rparr>)"
    by (simp add: onChange_def)
  moreover have "errors (validateField cfg name (JString val)
        ((foldl (step cfg) s later)\<lparr>formData := (formData (foldl (step cfg) s later))(name \<mapsto> val)\<rparr>)) =
      errors (validateField cfg name (JString val) (foldl (step cfg) s later))"
    by (rule validateField_errors_cong) simp
  ultimately show "errors (onChange cfg name val (foldl (step cfg) s later)) =
        errors (validateField cfg name (JString val) (foldl (step cfg) s later))" by simp
qed

theorem touched_gating_witness:
  "errors (onChange (nameConfig Inr) ''name'' [] (init (nameConfig Inr))) = Map.empty \<and>
   errors (run (nameConfig Inr) [Change ''name'' ''A'', Change ''name'' []]) = Map.empty \<and>
   touchedFields (onBlur (nameConfig Inr) ''name'' [] (init (nameConfig Inr))) = {''name''} \<and>
   errors (onBlur (nameConfig Inr) ''name'' [] (init (nameConfig Inr))) ''name'' =
     Some \<lparr>fe_message = ''Name is required'', fe_type = ''too_small''\<rparr> \<and>
   errors (onChange (nameConfig Inr) ''name'' []
       (foldl (step (nameConfig Inr)) (onBlur (nameConfig Inr) ''name'' ''A'' (init (nameConfig Inr)))
          [Change ''name'' ''Al''])) ''name'' =
     Some \<lparr>fe_message = ''Name is required'', fe_type = ''too_small''\<rparr>"
  using touched_gating
    [where cfg = "nameConfig Inr" and name = "''name''" and val = "[]" and val' = "[]"
       and s = "init (nameConfig Inr)" and evs = "[Change ''name'' ''A'', Change ''name'' []]"
       and later = "[]"]
    touched_gating
    [where cfg = "nameConfig Inr" and name = "''name''" and val = "[]" and val' = "[]"
       and s = "onBlur (nameConfig Inr) ''name'' ''A'' (init (nameConfig Inr))" and evs = "[]"
       and later = "[Change ''name'' ''Al'']"]
  by (simp add: init_def nameConfig_simps validateField_def nameSchema_def name_field_def
      onBlur_def onChange_def)

text \<open>
  C7, as amended. For a field with a sub-validator: when validation fails with a \<open>ZodError\<close>,
  the field's error is the first issue's message and code, with \<open>Invalid value\<close> in place of
  an empty or missing message and \<open>invalid\<close> in place of an empty or missing code (both are
  missing when the error carries no issue); when it succeeds, the field has no error. For
  every field name, with or without a sub-validator, validating it leaves the entries of all
  other fields unchanged, and validating twice with the same value gives the same state as
  validating once.
\<close>

theorem validateField_policy:
  "(shape (schema cfg) name = Some fieldSchema \<longrightarrow> fieldSchema bad = Inl (ZodError issues) \<longrightarrow>
      errors (validateField cfg name bad s) name =
        Some \<lparr>fe_message =
                 (case issues of
                    [] \<Rightarrow> ''Invalid value''
                  | i # _ \<Rightarrow> if message i = [] then ''Invalid value'' else message i),
              fe_type =
                 (case issues of
                    [] \<Rightarrow> ''invalid''
                  | i # _ \<Rightarrow> if code i = [] then ''invalid'' else code i)\<rparr>) \<and>
   (shape (schema cfg) name = Some fieldSchema \<longrightarrow> fieldSchema good = Inr parsed \<longrightarrow>
      errors (validateField cfg name good s) name = None) \<and>
   (other \<noteq> name \<longrightarrow> errors (validateField cfg name val s) other = errors s other) \<and>
   validateField cfg name val (validateField cfg name val s) = validateField cfg name val s"
  by (cases issues)
    (simp_all add: validateField_def split: option.splits sum.splits js_error.splits)

text \<open>
  The test suite's field; the field with two checks, of which the first issue is stored; the
  field whose error carries no issue, which gets both fallbacks; a field without a
  sub-validator; and a second validation with the same value.
\<close>

theorem validateField_policy_witness:
  "errors (validateField (nameConfig Inr) ''name'' (JString [])
       (init (nameConfig Inr))) ''name'' =
     Some \<lparr>fe_message = ''Name is required'', fe_type = ''too_small''\<rparr> \<and>
   errors (validateField strictConfig ''name'' (JString []) (init strictConfig)) ''name'' =
     Some \<lparr>fe_message = ''Name is required'', fe_type = ''too_small''\<rparr> \<and>
   errors (validateField bareConfig ''token'' (JString ''x'') (init bareConfig)) ''token'' =
     Some \<lparr>fe_message = ''Invalid value'', fe_type = ''invalid''\<rparr> \<and>
   errors (validateField (nameConfig Inr) ''name'' (JString ''Alice'')
       (validateField (nameConfig Inr) ''name'' (JString []) (init (nameConfig Inr)))) ''name'' =
     None \<and>
   errors (validateField (nameConfig Inr) ''email'' (JString [])
       (validateField (nameConfig Inr) ''name'' (JString []) (init (nameConfig Inr)))) ''name'' =
     Some \<lparr>fe_message = ''Name is required'', fe_type = ''too_small''\<rparr> \<and>
   validateField (nameConfig Inr) ''name'' (JString [])
       (validateField (nameConfig Inr) ''name'' (JString []) (init (nameConfig Inr))) =
     validateField (nameConfig Inr) ''name'' (JString []) (init (nameConfig Inr))"
  using validateField_policy
    [where cfg = "nameConfig Inr" and name = "''name''" and fieldSchema = name_field
       and bad = "JString []"
       and issues = "[\<lparr>path = [], message = ''Name is required'', code = ''too_small''\<rparr>]"
       and good = "JString ''Alice''" and parsed = "JString ''Alice''"
       and other = "''email''" and val = "JString []"
       and s = "validateField (nameConfig Inr) ''name'' (JString []) (init (nameConfig Inr))"]
    validateField_policy
    [where cfg = strictConfig and name = "''name''" and fieldSchema = strict_field
       and bad = "JString []"
       and issues = "[\<lparr>path = [], message = ''Name is required'', code = ''too_small''\<rparr>,
                      \<lparr>path = [], message = ''Name must start with A'',
                       code = ''invalid_format''\<rparr>]"
       and s = "init strictConfig"]
    validateField_policy
    [where cfg = bareConfig and name = "''token''" and fieldSchema = bare_field
       and bad = "JString ''x''" and issues = "[]" and s = "init bareConfig"]
    validateField_policy
    [where cfg = "nameConfig Inr" and name = "''email''" and other = "''name''"
       and val = "JString []"
       and s = "validateField (nameConfig Inr) ''name'' (JString []) (init (nameConfig Inr))"]
  by (simp add: nameConfig_simps nameSchema_def name_field_def init_def validateField_def
      strictConfig_def strictSchema_def strict_field_def bareConfig_def bareSchema_def
      bare_field_def createActionConfig_def)

text \<open>
  The claim as stated fails for an issue whose message is empty: the stored message is the
  fallback \<open>Invalid value\<close>, not the issue's own.
\<close>

theorem validateField_policy_counterexample:
  "shape (schema blankConfig) ''name'' = Some blank_field \<and>
   blank_field (JString []) = Inl (ZodError [\<lparr>path = [], message = [], code = ''too_small''\<rparr>]) \<and>
   errors (validateField blankConfig ''name'' (JString []) (init blankConfig)) ''name'' =
     Some \<lparr>fe_message = ''Invalid value'', fe_type = ''too_small''\<rparr> \<and>
   errors (validateField blankConfig ''name'' (JString []) (init blankConfig)) ''name'' \<noteq>
     Some \<lparr>fe_message = [], fe_type = ''too_small''\<rparr>"
  by (simp add: blankConfig_def createActionConfig_def blankSchema_def blank_field_def
      validateField_def init_def)

text \<open>
  C10. For a field name without a sub-validator in the schema's shape, single-field
  validation returns the state as it was, for every value; so the change and blur handlers
  of that name leave the errors entirely unchanged: no entry is created and none is cleared.
\<close>

theorem validateField_without_validator:
  "shape (schema cfg) name = None \<Longrightarrow>
   validateField cfg name v s = s \<and>
   errors (onChange cfg name val s) = errors s \<and>
   errors (onBlur cfg name val s) = errors s"
  by (simp add: validateField_def onChange_def onBlur_def Let_def)

theorem validateField_without_validator_witness:
  "shape (schema refinedConfig) ''account'' = None \<and>
   errors (run refinedConfig [FormAction [(''name'', ''admin'')]]) ''account'' =
     Some \<lparr>fe_message = ''Name is reserved'', fe_type = ''custom''\<rparr> \<and>
   validateField refinedConfig ''account'' (JString [])
       (run refinedConfig [FormAction [(''name'', ''admin'')]]) =
     run refinedConfig [FormAction [(''name'', ''admin'')]] \<and>
   errors (onChange refinedConfig ''account'' ''x''
       (run refinedConfig [FormAction [(''name'', ''admin'')]])) ''account'' =
     Some \<lparr>fe_message = ''Name is reserved'', fe_type = ''custom''\<rparr> \<and>
   errors (onBlur refinedConfig ''account'' ''x''
       (run refinedConfig [FormAction [(''name'', ''admin'')]])) ''account'' =
     Some \<lparr>fe_message = ''Name is reserved'', fe_type = ''custom''\<rparr>"
  using validateField_without_validator
    [where cfg = refinedConfig and name = "''account''" and v = "JString []" and val = "''x''"
       and s = "run refinedConfig [FormAction [(''name'', ''admin'')]]"]
  by (simp add: run_def init_def refinedConfig_def createActionConfig_def refinedSchema_def
      nameSchema_def name_field_def fromEntries_def enhancedFormAction_def fieldErrors_def
      fieldName_def)

section \<open>Invariants of the runs\<close>

lemma validateField_dom:
  "dom (errors (validateField cfg name v s)) \<subseteq> dom (errors s) \<union> dom (shape (schema cfg))"
  by (auto simp: validateField_def split: option.splits sum.splits js_error.splits if_splits)

lemma step_errors_dom:
  assumes sch: "\<And>fd issues i f. parse (schema cfg) (fromEntries fd) = Inl (ZodError issues) \<Longrightarrow>
                  i \<in> set issues \<Longrightarrow> fieldName i = Some f \<Longrightarrow> f \<in> dom (shape (schema cfg))"
    and inv: "dom (errors s) \<subseteq> dom (shape (schema cfg))"
  shows "dom (errors (step cfg s e)) \<subseteq> dom (shape (schema cfg))"
proof (cases e)
  case (Change name val)
  show ?thesis
  proof (cases "name \<in> touchedFields s")
    case True
    then have "errors (step cfg s e) =
        errors (validateField cfg name (JString val) (s\<lparr>formData := (formData s)(name \<mapsto> val)\<rparr>))"
      by (simp add: Change onChange_def)
    with validateField_dom[of cfg name "JString val" "s\<lparr>formData := (formData s)(name \<mapsto> val)\<rparr>"] inv
    show ?thesis by auto
  next
    case False
    then show ?thesis using inv by (simp add: Change onChange_def)
  qed
next
  case (Blur name val)
  with validateField_dom[of cfg name "JString val" "s\<lparr>touchedFields := insert name (touchedFields s)\<rparr>"] inv
  show ?thesis by (auto simp: onBlur_def)
next
  case (FormAction fd)
  show ?thesis
  proof (cases "parse (schema cfg) (fromEntries fd)")
    case (Inr parsed)
    then show ?thesis by (simp add: FormAction enhancedFormAction_def startTransition_def)
  next
    case (Inl error)
    show ?thesis
    proof (cases error)
      case (ZodError issues)
      with Inl have p: "parse (schema cfg) (fromEntries fd) = Inl (ZodError issues)" by simp
      then have "errors (step cfg s e) = fieldErrors issues"
        by (simp add: FormAction enhancedFormAction_def)
      moreover have "dom (fieldErrors issues) \<subseteq> dom (shape (schema cfg))"
        unfolding dom_fieldErrors using sch[OF p] by blast
      ultimately show ?thesis by simp
    next
      case (Error m)
      with Inl inv show ?thesis by (simp add: FormAction enhancedFormAction_def)
    next
      case (Thrown v)
      with Inl inv show ?thesis by (simp add: FormAction enhancedFormAction_def)
    qed
  qed
next
  case (ExecuteAction data)
  then show ?thesis using inv
    by (simp add: executeAction_def startTransition_def split: sum.splits)
next
  case (Settle k)
  then show ?thesis using inv by (simp add: settle_def)
qed

text \<open>
  C8, as amended. Provided the schema's whole-form validation reports only issues whose field
  name (first path segment) is a field of the schema's shape, in every state reached by any
  sequence of change, blur, \<open>formAction\<close>, \<open>executeAction\<close> and settle events the keys of the
  errors state are field names of the shape.
\<close>

theorem errors_keys_within_shape:
  assumes "\<And>fd issues i f. parse (schema cfg) (fromEntries fd) = Inl (ZodError issues) \<Longrightarrow>
             i \<in> set issues \<Longrightarrow> fieldName i = Some f \<Longrightarrow> f \<in> dom (shape (schema cfg))"
  shows "dom (errors (run cfg evs)) \<subseteq> dom (shape (schema cfg))"
proof -
  have "dom (errors (foldl (step cfg) s evs)) \<subseteq> dom (shape (schema cfg))"
    if "dom (errors s) \<subseteq> dom (shape (schema cfg))" for s
    using that
  proof (induction evs arbitrary: s)
    case Nil
    then show ?case by simp
  next
    case (Cons e evs)
    have "dom (errors (step cfg s e)) \<subseteq> dom (shape (schema cfg))"
      using assms Cons.prems by (rule step_errors_dom)
    from Cons.IH[OF this] show ?case by simp
  qed
  from this[of "init cfg"] show ?thesis by (simp add: run_def init_def)
qed

theorem errors_keys_within_shape_witness:
  "dom (errors (run (nameConfig Inr)
      [Blur ''name'' [], FormAction [(''name'', [])], ExecuteAction None, Settle 0])) \<subseteq>
   dom (shape (schema (nameConfig Inr)))"
proof (rule errors_keys_within_shape)
  fix fd issues i f
  assume "parse (schema (nameConfig Inr)) (fromEntries fd) = Inl (ZodError issues)"
    and "i \<in> set issues" and "fieldName i = Some f"
  then have "f = ''name''"
    using nameSchema_issue_fields[of "fromEntries fd" issues i f] by (simp add: nameConfig_simps)
  then show "f \<in> dom (shape (schema (nameConfig Inr)))"
    by (simp add: nameConfig_simps nameSchema_def)
qed

text \<open>
  The claim as stated fails for a schema with a refinement that reports under a path of its
  own: \<open>formAction\<close> stores the issue under \<open>account\<close>, which is not a field of the shape.
\<close>

theorem errors_keys_within_shape_counterexample:
  "errors (run refinedConfig [FormAction [(''name'', ''admin'')]]) ''account'' =
     Some \<lparr>fe_message = ''Name is reserved'', fe_type = ''custom''\<rparr> \<and>
   shape (schema refinedConfig) ''account'' = None \<and>
   \<not> dom (errors (run refinedConfig [FormAction [(''name'', ''admin'')]])) \<subseteq>
       dom (shape (schema refinedConfig))"
  by (simp add: run_def init_def refinedConfig_def createActionConfig_def refinedSchema_def
      nameSchema_def name_field_def fromEntries_def enhancedFormAction_def fieldErrors_def
      fieldName_def dom_def)

text \<open>
  C9. In every state reached by any sequence of events, \<open>buttonDisabled\<close> is
  \<open>isPending || !isValid\<close>, and \<open>isValid\<close> holds exactly when the errors state is empty, that
  is, when \<open>getFieldError\<close> finds no error for any name: it is computed from the errors at each
  render and is not a state cell.
\<close>

theorem buttonDisabled_derivation:
  "buttonDisabled (run cfg evs) = (isPending (run cfg evs) \<or> \<not> isValid (run cfg evs)) \<and>
   isValid (run cfg evs) = (errors (run cfg evs) = Map.empty) \<and>
   isValid (run cfg evs) = (\<forall>name. getFieldError (run cfg evs) name = None)"
  by (auto simp: buttonDisabled_def isValid_def getFieldError_def)

theorem buttonDisabled_derivation_witness:
  "buttonDisabled (run (nameConfig Inr) [Blur ''name'' []]) \<and>
   \<not> isPending (run (nameConfig Inr) [Blur ''name'' []]) \<and>
   \<not> isValid (run (nameConfig Inr) [Blur ''name'' []]) \<and>
   getFieldError (run (nameConfig Inr) [Blur ''name'' []]) ''name'' =
     Some \<lparr>fe_message = ''Name is required'', fe_type = ''too_small''\<rparr> \<and>
   buttonDisabled (run (nameConfig Inr) [FormAction [(''name'', ''Alice'')]]) \<and>
   isPending (run (nameConfig Inr) [FormAction [(''name'', ''Alice'')]]) \<and>
   isValid (run (nameConfig Inr) [FormAction [(''name'', ''Alice'')]])"
  using buttonDisabled_derivation[of "nameConfig Inr" "[Blur ''name'' []]"]
    buttonDisabled_derivation[of "nameConfig Inr" "[FormAction [(''name'', ''Alice'')]]"]
  by (simp add: run_def init_def nameConfig_simps onBlur_def validateField_def nameSchema_def
      name_field_def getFieldError_def enhancedFormAction_def fromEntries_def
      startTransition_def)

end
